theory Spec2Isabelle
  imports Complex_Main
begin

section \<open>The morphing particle tree: data model\<close>

text \<open>
  A shallow embedding of \<^verbatim>\<open>InteractiveTree.tsx\<close> and \<^verbatim>\<open>FloatingOrnaments.tsx\<close>.
  A JavaScript \<^verbatim>\<open>number\<close> is modelled as a \<^typ>\<open>real\<close>: arithmetic is exact, and
  infinities and NaN are outside the model. Rounding is modelled where a property
  depends on it, in the section on the position in double precision. \<^verbatim>\<open>Math.sin\<close>, \<^verbatim>\<open>Math.cos\<close>,
  \<^verbatim>\<open>Math.sqrt\<close>, \<^verbatim>\<open>Math.cbrt\<close>, \<^verbatim>\<open>Math.acos\<close> and \<^verbatim>\<open>Math.pow\<close> are the functions
  \<^const>\<open>sin\<close>, \<^const>\<open>cos\<close>, \<^const>\<open>sqrt\<close>, \<open>root 3\<close>, \<^const>\<open>arccos\<close> and \<^const>\<open>powr\<close>.
\<close>

datatype TreeMorphState = SCATTERED | TREE_SHAPE

datatype particle_type = sphere | cube | gem

text \<open>The keys of \<^verbatim>\<open>PALETTE\<close>; a colour is identified by its key.\<close>

datatype PALETTE =
  GOLD_BRIGHT | GOLD_CHAMPAGNE | GOLD_DEEP | WHITE | MORANDI | AMBER | PINK | BROWN

datatype Vector3 = Vector3 (vec_x: real) (vec_y: real) (vec_z: real)

datatype Euler = Euler (euler_x: real) (euler_y: real) (euler_z: real)

record ParticleData =
  scatterPosition :: Vector3
  scatterRotation :: Euler
  treePosition :: Vector3
  treeRotation :: Euler
  scale :: real
  speed :: real
  color :: PALETTE

section \<open>Colour mixing\<close>

text \<open>
  The colour mixing logic of \<^verbatim>\<open>generateParticles\<close> (the \<^verbatim>\<open>if\<close> chain on \<^verbatim>\<open>type\<close>
  and \<^verbatim>\<open>rand\<close>), branch by branch.
\<close>

definition pickColor :: "particle_type \<Rightarrow> real \<Rightarrow> PALETTE" where
  "pickColor type rand =
     (if type = sphere then
        (if rand < 0.30 then MORANDI
         else if rand < 0.55 then WHITE
         else if rand < 0.70 then GOLD_CHAMPAGNE
         else if rand < 0.85 then PINK
         else if rand < 0.95 then BROWN
         else GOLD_BRIGHT)
      else if type = cube then
        (if rand < 0.25 then GOLD_BRIGHT
         else if rand < 0.45 then GOLD_DEEP
         else if rand < 0.60 then WHITE
         else if rand < 0.75 then MORANDI
         else if rand < 0.85 then BROWN
         else GOLD_CHAMPAGNE)
      else
        (if rand < 0.4 then AMBER
         else if rand < 0.7 then WHITE
         else if rand < 0.85 then GOLD_BRIGHT
         else PINK))"

text \<open>
  The specification's view of the same choice: each class has a fixed ordered table of
  colours with cumulative upper bounds (Morandi is the specification's name of
  \<^const>\<open>MORANDI\<close>, PaleGold of \<^const>\<open>GOLD_CHAMPAGNE\<close>, DeepGold of \<^const>\<open>GOLD_DEEP\<close>,
  BrightGold of \<^const>\<open>GOLD_BRIGHT\<close>), and the pick is the first colour whose bound exceeds
  the draw.
\<close>

fun spec_weightTable :: "particle_type \<Rightarrow> (PALETTE \<times> real) list" where
  "spec_weightTable sphere =
     [(MORANDI, 0.30), (WHITE, 0.55), (GOLD_CHAMPAGNE, 0.70), (PINK, 0.85), (BROWN, 0.95),
      (GOLD_BRIGHT, 1.00)]"
| "spec_weightTable cube =
     [(GOLD_BRIGHT, 0.25), (GOLD_DEEP, 0.45), (WHITE, 0.60), (MORANDI, 0.75), (BROWN, 0.85),
      (GOLD_CHAMPAGNE, 1.00)]"
| "spec_weightTable gem =
     [(AMBER, 0.40), (WHITE, 0.70), (GOLD_BRIGHT, 0.85), (PINK, 1.00)]"

fun spec_firstExceeding :: "(PALETTE \<times> real) list \<Rightarrow> real \<Rightarrow> PALETTE option" where
  "spec_firstExceeding [] u = None"
| "spec_firstExceeding ((c, bound) # rest) u =
     (if u < bound then Some c else spec_firstExceeding rest u)"

text \<open>The pick with the table's last colour as the "otherwise" case.\<close>

definition spec_pick :: "particle_type \<Rightarrow> real \<Rightarrow> PALETTE" where
  "spec_pick type u =
     (case spec_firstExceeding (spec_weightTable type) u of
        Some c \<Rightarrow> c
      | None \<Rightarrow> fst (last (spec_weightTable type)))"

section \<open>Particle generation\<close>

text \<open>
  \<^verbatim>\<open>Math.random()\<close> is an explicit stream of draws \<open>random 0, random 1, \<dots>\<close>, read
  in the order of the calls; the position in the stream is passed along. One pass of the
  loop body of \<^verbatim>\<open>generateParticles\<close> makes thirteen calls.
\<close>

definition treeHeight :: real where
  "treeHeight = 13"

definition maxBaseRadius :: real where
  "maxBaseRadius = 5.5"

definition generateParticle :: "particle_type \<Rightarrow> (nat \<Rightarrow> real) \<Rightarrow> nat \<Rightarrow> ParticleData" where
  "generateParticle type random k =
     (let r = 22 * root 3 (random k);
          theta = random (k + 1) * 2 * pi;
          phi = arccos (2 * random (k + 2) - 1);
          scatterPos =
            Vector3 (r * sin phi * cos theta) (r * sin phi * sin theta) (r * cos phi);
          hNormal = random (k + 3) powr 1.2;
          y = - treeHeight / 2 + (hNormal * treeHeight) + 1;
          radiusAtHeight = (1 - hNormal) * maxBaseRadius;
          pileRadius = radiusAtHeight * (0.2 + 0.8 * sqrt (random (k + 4)));
          pileAngle = random (k + 5) * pi * 2;
          treePos = Vector3 (pileRadius * cos pileAngle) y (pileRadius * sin pileAngle);
          rand = random (k + 6)
      in \<lparr> scatterPosition = scatterPos,
           scatterRotation = Euler (random (k + 7) * pi) (random (k + 8) * pi) 0,
           treePosition = treePos,
           treeRotation = Euler (random (k + 9) * pi) (random (k + 10) * pi) 0,
           scale = 0.5 + random (k + 11) * 0.8,
           speed = 0.5 + random (k + 12) * 0.5,
           color = pickColor type rand \<rparr>)"

text \<open>
  The loop \<^verbatim>\<open>for (let i = 0; i < count; i++)\<close>: \<open>i\<close> is the loop counter, \<open>k\<close> the
  position in the stream of draws, \<open>data\<close> the array built by \<^verbatim>\<open>data.push\<close>. The
  requested count is any integer; nothing in the source checks its sign.
\<close>

function generateLoop ::
  "int \<Rightarrow> int \<Rightarrow> particle_type \<Rightarrow> (nat \<Rightarrow> real) \<Rightarrow> nat \<Rightarrow> ParticleData list \<Rightarrow> ParticleData list"
where
  "generateLoop i count type random k data =
     (if i < count
      then generateLoop (i + 1) count type random (k + 13)
             (data @ [generateParticle type random k])
      else data)"
  by pat_completeness auto
termination
  by (relation "measure (\<lambda>(i, count, type, random, k, data). nat (count - i))") auto

definition generateParticles :: "int \<Rightarrow> particle_type \<Rightarrow> (nat \<Rightarrow> real) \<Rightarrow> ParticleData list" where
  "generateParticles count type random = generateLoop 0 count type random 0 []"

definition COUNTS_SPHERES :: int where
  "COUNTS_SPHERES = 600"

definition COUNTS_CUBES :: int where
  "COUNTS_CUBES = 600"

definition COUNTS_GEMS :: int where
  "COUNTS_GEMS = 300"

section \<open>The per-frame transform\<close>

text \<open>
  Modelled from the spec: \<^verbatim>\<open>THREE.MathUtils.lerp\<close> and \<^verbatim>\<open>THREE.Vector3.lerpVectors\<close>
  belong to the three.js library, which is not under the sources. They are the
  specification's \<open>lerp\<close>: linear interpolation, on a vector component by component.
\<close>

definition lerp :: "real \<Rightarrow> real \<Rightarrow> real \<Rightarrow> real" where
  "lerp x y t = (1 - t) * x + t * y"

definition lerpVectors :: "Vector3 \<Rightarrow> Vector3 \<Rightarrow> real \<Rightarrow> Vector3" where
  "lerpVectors v1 v2 alpha =
     Vector3 (vec_x v1 + (vec_x v2 - vec_x v1) * alpha)
             (vec_y v1 + (vec_y v2 - vec_y v1) * alpha)
             (vec_z v1 + (vec_z v2 - vec_z v1) * alpha)"

text \<open>
  What \<^verbatim>\<open>DUMMY\<close> holds when its matrix is written to the instance buffer, together with
  the colour written beside it. The quaternion (a \<^verbatim>\<open>slerp\<close> of the two rotations, again
  three.js code) is left out: no property below refers to it.
\<close>

record Instance =
  position :: Vector3
  instanceScale :: real
  instanceColor :: PALETTE

text \<open>
  The body of \<^verbatim>\<open>data.forEach((particle, i) => \<dots>)\<close> in \<^verbatim>\<open>animateMesh\<close>, with the
  clock's \<^verbatim>\<open>elapsedTime\<close> and the blend value \<open>t\<close> of the enclosing frame.
\<close>

definition particleInstance :: "real \<Rightarrow> real \<Rightarrow> nat \<Rightarrow> ParticleData \<Rightarrow> Instance" where
  "particleInstance elapsedTime t i particle =
     (let noiseX = sin (elapsedTime * speed particle + real i) * 0.2 * (1 - t);
          noiseY = cos (elapsedTime * speed particle * 0.5 + real i) * 0.2 * (1 - t);
          v0 = lerpVectors (scatterPosition particle) (treePosition particle) t;
          v1 = Vector3 (vec_x v0 + noiseX) (vec_y v0) (vec_z v0);
          v2 = Vector3 (vec_x v1) (vec_y v1 + noiseY) (vec_z v1);
          breathe = 1 + 0.1 * sin (elapsedTime * 2 + real i)
      in \<lparr> position = v2,
           instanceScale = scale particle * breathe,
           instanceColor = color particle \<rparr>)"

record InstancedMesh =
  rotation_y :: real
  instances :: "Instance list"

text \<open>
  \<^verbatim>\<open>setMatrixAt(i, \<dots>)\<close> and \<^verbatim>\<open>setColorAt(i, \<dots>)\<close> write slot \<open>i\<close> of the mesh's typed
  arrays; a write past the end of a typed array changes nothing, as \<open>buf[i := v]\<close> does.
\<close>

fun forEach :: "real \<Rightarrow> real \<Rightarrow> nat \<Rightarrow> ParticleData list \<Rightarrow> Instance list \<Rightarrow> Instance list" where
  "forEach elapsedTime t i [] buf = buf"
| "forEach elapsedTime t i (particle # rest) buf =
     forEach elapsedTime t (Suc i) rest (buf[i := particleInstance elapsedTime t i particle])"

definition animateMesh ::
  "real \<Rightarrow> real \<Rightarrow> real \<Rightarrow> InstancedMesh option \<Rightarrow> ParticleData list \<Rightarrow> InstancedMesh option"
where
  "animateMesh elapsedTime delta t mesh data =
     (case mesh of
        None \<Rightarrow> None
      | Some m \<Rightarrow>
          Some (m\<lparr> rotation_y := rotation_y m + delta * 0.05,
                   instances := forEach elapsedTime t 0 data (instances m) \<rparr>))"

text \<open>The component's refs and memoised data: the state one frame reads and writes.\<close>

record InteractiveTree =
  sphereRef :: "InstancedMesh option"
  cubeRef :: "InstancedMesh option"
  gemRef :: "InstancedMesh option"
  spheres :: "ParticleData list"
  cubes :: "ParticleData list"
  gems :: "ParticleData list"
  blendRef :: real

text \<open>
  The \<^verbatim>\<open>useFrame\<close> callback of \<^verbatim>\<open>InteractiveTree\<close>. \<^verbatim>\<open>easing.damp\<close> belongs to the
  maath package, which is not under the sources, so the callback takes it as the
  parameter \<open>easing_damp current target smoothTime delta\<close>, the new value of the ref.
\<close>

definition useFrame_InteractiveTree ::
  "(real \<Rightarrow> real \<Rightarrow> real \<Rightarrow> real \<Rightarrow> real) \<Rightarrow> TreeMorphState \<Rightarrow> real \<Rightarrow> real \<Rightarrow>
     InteractiveTree \<Rightarrow> InteractiveTree"
where
  "useFrame_InteractiveTree easing_damp state elapsedTime delta c =
     (let targetBlend = (if state = TREE_SHAPE then 1 else 0);
          t = easing_damp (blendRef c) targetBlend 1.2 delta
      in c\<lparr> blendRef := t,
            sphereRef := animateMesh elapsedTime delta t (sphereRef c) (spheres c),
            cubeRef := animateMesh elapsedTime delta t (cubeRef c) (cubes c),
            gemRef := animateMesh elapsedTime delta t (gemRef c) (gems c) \<rparr>)"

section \<open>The accent object\<close>

record Group =
  position_y :: real
  group_scale :: real
  group_rotation_y :: real

record FloatingOrnaments =
  starRef :: "Group option"
  materialRef :: "real option"
  star_blendRef :: real

text \<open>
  The \<^verbatim>\<open>useFrame\<close> callback of \<^verbatim>\<open>FloatingOrnaments\<close>; \<open>materialRef\<close> holds the
  material's \<^verbatim>\<open>emissiveIntensity\<close>. With no star mounted the callback returns at once.
\<close>

definition useFrame_FloatingOrnaments ::
  "(real \<Rightarrow> real \<Rightarrow> real \<Rightarrow> real \<Rightarrow> real) \<Rightarrow> TreeMorphState \<Rightarrow> real \<Rightarrow> real \<Rightarrow>
     FloatingOrnaments \<Rightarrow> FloatingOrnaments"
where
  "useFrame_FloatingOrnaments easing_damp state elapsedTime delta c =
     (case starRef c of
        None \<Rightarrow> c
      | Some star \<Rightarrow>
          (let targetBlend = (if state = TREE_SHAPE then 1 else 0);
               t = easing_damp (star_blendRef c) targetBlend 1.0 delta;
               treeTopY = 8.2;
               scatterY = 15;
               star1 = star\<lparr> position_y := lerp scatterY treeTopY t \<rparr>;
               scale = lerp 0 1.2 t;
               star2 = star1\<lparr> group_scale := scale \<rparr>;
               star3 = star2\<lparr> group_rotation_y := group_rotation_y star2 + delta * 0.8 \<rparr>;
               star4 = star3\<lparr> position_y := position_y star3 + sin (elapsedTime * 2) * 0.05 \<rparr>
           in c\<lparr> star_blendRef := t,
                 starRef := Some star4,
                 materialRef :=
                   (case materialRef c of
                      None \<Rightarrow> None
                    | Some m \<Rightarrow> Some (0.8 + sin (elapsedTime * 2) * 0.4)) \<rparr>))"

section \<open>The damped blend value\<close>

text \<open>
  Modelled from the spec: \<^verbatim>\<open>easing.damp\<close> belongs to the maath package, which is not
  under the sources. The specification's BlendStateController advances by exponential
  smoothing, \<open>value' = target + (value - target) * exp (- dt / timeConstant)\<close>.
\<close>

definition damp :: "real \<Rightarrow> real \<Rightarrow> real \<Rightarrow> real \<Rightarrow> real" where
  "damp current target smoothTime delta =
     target + (current - target) * exp (- delta / smoothTime)"

section \<open>The position in double precision\<close>



text \<open>
  Modelled from the spec: \<^verbatim>\<open>THREE.Vector3.lerpVectors\<close> belongs to the three.js
  library, which is not under the sources. It is the specification's \<open>lerp\<close>, computed
  as three.js does, \<^verbatim>\<open>v1.x + (v2.x - v1.x) * alpha\<close> for each component, here with the
  result of each operation rounded.
\<close>

definition lerpVectors_rounded :: "(real \<Rightarrow> real) \<Rightarrow> Vector3 \<Rightarrow> Vector3 \<Rightarrow> real \<Rightarrow> Vector3" where
  "lerpVectors_rounded rnd v1 v2 alpha =
     Vector3 (rnd (vec_x v1 + rnd (rnd (vec_x v2 - vec_x v1) * alpha)))
             (rnd (vec_y v1 + rnd (rnd (vec_y v2 - vec_y v1) * alpha)))
             (rnd (vec_z v1 + rnd (rnd (vec_z v2 - vec_z v1) * alpha)))"

text \<open>
  The position computed by the body of \<^verbatim>\<open>data.forEach((particle, i) => \<dots>)\<close>, each
  operation rounded by \<open>rnd\<close>. The results of \<^verbatim>\<open>Math.sin\<close> and \<^verbatim>\<open>Math.cos\<close> depend on
  the implementation, so the two functions are parameters. The literal \<^verbatim>\<open>0.2\<close> is the
  rounded \<open>rnd 0.2\<close>; \<^verbatim>\<open>0.5\<close>, \<^verbatim>\<open>1\<close> and the index \<open>i\<close> need no rounding.
\<close>

definition particlePosition_rounded ::
  "(real \<Rightarrow> real) \<Rightarrow> (real \<Rightarrow> real) \<Rightarrow> (real \<Rightarrow> real) \<Rightarrow> real \<Rightarrow> real \<Rightarrow> nat \<Rightarrow> ParticleData \<Rightarrow> Vector3"
where
  "particlePosition_rounded rnd Math_sin Math_cos elapsedTime t i particle =
     (let noiseX =
            rnd (rnd (Math_sin (rnd (rnd (elapsedTime * speed particle) + real i)) * rnd 0.2) *
                 rnd (1 - t));
          noiseY =
            rnd (rnd (Math_cos (rnd (rnd (rnd (elapsedTime * speed particle) * 0.5) + real i)) *
                      rnd 0.2) *
                 rnd (1 - t));
          v0 = lerpVectors_rounded rnd (scatterPosition particle) (treePosition particle) t;
          v1 = Vector3 (rnd (vec_x v0 + noiseX)) (vec_y v0) (vec_z v0);
          v2 = Vector3 (vec_x v1) (rnd (vec_y v1 + noiseY)) (vec_z v1)
      in v2)"

section \<open>Properties of the colour mixing\<close>

lemma pickColor_sphere:
  "pickColor sphere u =
     (if u < 0.30 then MORANDI else if u < 0.55 then WHITE
      else if u < 0.70 then GOLD_CHAMPAGNE else if u < 0.85 then PINK
      else if u < 0.95 then BROWN else GOLD_BRIGHT)"
  by (simp add: pickColor_def)

lemma firstExceeding_pickColor:
  assumes "u < 1"
  shows "spec_firstExceeding (spec_weightTable type) u = Some (pickColor type u)"
  using assms by (cases type) (simp_all add: pickColor_def)

lemma spec_pick_pickColor: "spec_pick type u = pickColor type u"
  by (cases type) (simp_all add: spec_pick_def pickColor_def)

text \<open>
  Claim C3. For every class and every draw \<open>u\<close>, the colour the generator assigns is the
  first colour of the class's cumulative-weight table whose bound exceeds \<open>u\<close>, the
  table's last colour being the "otherwise" case; whenever \<open>u < 1\<close> (every value of
  \<^verbatim>\<open>Math.random()\<close>) such a first colour exists. For the sphere class this is Morandi
  below 0.30, White below 0.55, PaleGold below 0.70, Pink below 0.85, Brown below 0.95
  and BrightGold otherwise.
\<close>

theorem C3_pickColor_first_exceeding:
  "pickColor type u = spec_pick type u \<and>
   (u < 1 \<longrightarrow> spec_firstExceeding (spec_weightTable type) u = Some (pickColor type u)) \<and>
   pickColor sphere u =
     (if u < 0.30 then MORANDI else if u < 0.55 then WHITE
      else if u < 0.70 then GOLD_CHAMPAGNE else if u < 0.85 then PINK
      else if u < 0.95 then BROWN else GOLD_BRIGHT)"
  using firstExceeding_pickColor [of u type] spec_pick_pickColor [of type u]
    pickColor_sphere [of u]
  by simp

theorem C3_pickColor_witness:
  "(1/2 :: real) < 1 \<and>
   spec_firstExceeding (spec_weightTable sphere) (1/2) = Some WHITE \<and>
   pickColor sphere (1/2) = WHITE \<and> spec_pick sphere (1/2) = WHITE"
  using C3_pickColor_first_exceeding [of sphere "1/2"]
  by (simp add: pickColor_def)

section \<open>Properties of the generator\<close>

declare generateLoop.simps [simp del]

text \<open>
  The loop appends one particle per pass: started at counter \<open>i\<close> and stream position
  \<open>k\<close>, it appends \<open>count - i\<close> particles (none when that is not positive), the
  \<open>j\<close>-th of them built from the thirteen draws at \<open>k + 13 * j\<close>.
\<close>

lemma generateLoop_eq:
  "generateLoop i count type random k data =
     data @ map (\<lambda>j. generateParticle type random (k + 13 * j)) [0..<nat (count - i)]"
proof (induction i count type random k data rule: generateLoop.induct)
  case (1 i count type random k data)
  show ?case
  proof (cases "i < count")
    case True
    then have n: "nat (count - i) = Suc (nat (count - (i + 1)))" by simp
    have "generateLoop i count type random k data =
        generateLoop (i + 1) count type random (k + 13) (data @ [generateParticle type random k])"
      using True by (subst generateLoop.simps) simp
    also have "\<dots> = (data @ [generateParticle type random k]) @
        map (\<lambda>j. generateParticle type random (k + 13 + 13 * j)) [0..<nat (count - (i + 1))]"
      using "1.IH" [OF True] .
    also have "\<dots> =
        data @ map (\<lambda>j. generateParticle type random (k + 13 * j)) [0..<nat (count - i)]"
      unfolding n by (simp add: upt_conv_Cons map_Suc_upt [symmetric] add.assoc del: upt_Suc)
    finally show ?thesis .
  next
    case False
    then show ?thesis by (subst generateLoop.simps) simp
  qed
qed

lemma length_generateParticles: "length (generateParticles count type random) = nat count"
  by (simp add: generateParticles_def generateLoop_eq)

lemma group_sizes:
  "length (generateParticles COUNTS_SPHERES sphere random) = 600"
  "length (generateParticles COUNTS_CUBES cube random) = 600"
  "length (generateParticles COUNTS_GEMS gem random) = 300"
  by (simp_all add: length_generateParticles COUNTS_SPHERES_def COUNTS_CUBES_def COUNTS_GEMS_def)

lemma nth_generateParticles:
  "i < nat count \<Longrightarrow>
     generateParticles count type random ! i = generateParticle type random (13 * i)"
  by (simp add: generateParticles_def generateLoop_eq)

lemma generateParticles_nonpos: "count \<le> 0 \<Longrightarrow> generateParticles count type random = []"
  by (simp add: generateParticles_def generateLoop_eq)

lemma generateParticle_scale:
  "scale (generateParticle type random k) = 0.5 + random (k + 11) * 0.8"
  by (simp add: generateParticle_def Let_def)

lemma generateParticle_speed:
  "speed (generateParticle type random k) = 0.5 + random (k + 12) * 0.5"
  by (simp add: generateParticle_def Let_def)

text \<open>
  Claim C4, as the code has it. The generator has no error path: for every requested
  count that is negative or zero the loop body never runs and the result is the empty
  group, so a negative count is treated exactly as the count 0.
\<close>

theorem C4_nonpositive_count_empty_group:
  "count \<le> 0 \<Longrightarrow> generateParticles count type random = []"
  by (rule generateParticles_nonpos)

theorem C4_nonpositive_count_witness:
  "(- 3 :: int) \<le> 0 \<and> generateParticles (- 3) gem (\<lambda>n. 0) = [] \<and>
   generateParticles 0 gem (\<lambda>n. 0) = []"
  using C4_nonpositive_count_empty_group [of "- 3" gem "\<lambda>n. 0"]
    C4_nonpositive_count_empty_group [of 0 gem "\<lambda>n. 0"]
  by simp

text \<open>
  Claim C4 as stated asks that a negative count be rejected and no group returned. At
  the count \<open>- 1\<close> the generator returns a group, the one it returns for the count 0.
\<close>

theorem C4_negative_count_counterexample:
  "generateParticles (- 1) sphere (\<lambda>n. 0) = [] \<and>
   generateParticles (- 1) sphere (\<lambda>n. 0) = generateParticles 0 sphere (\<lambda>n. 0)"
  by (simp add: generateParticles_def generateLoop.simps)

text \<open>
  Claim C7. For every count and class and every stream of draws in \<open>[0, 1)\<close>, each
  generated particle has its base scale in \<open>[0.5, 1.3]\<close> and its noise phase speed in
  \<open>[0.5, 1.0]\<close>.
\<close>

theorem C7_scale_speed_range:
  assumes "\<forall>n. 0 \<le> random n \<and> random n < 1"
    and "i < length (generateParticles count type random)"
  shows "0.5 \<le> scale (generateParticles count type random ! i) \<and>
         scale (generateParticles count type random ! i) \<le> 1.3 \<and>
         0.5 \<le> speed (generateParticles count type random ! i) \<and>
         speed (generateParticles count type random ! i) \<le> 1.0"
proof -
  from assms(2) have i: "i < nat count" by (simp add: length_generateParticles)
  have a: "0 \<le> random (13 * i + 11)" "random (13 * i + 11) < 1"
    and b: "0 \<le> random (13 * i + 12)" "random (13 * i + 12) < 1"
    using assms(1) by simp_all
  show ?thesis
    using a b
    by (simp add: nth_generateParticles [OF i] generateParticle_scale generateParticle_speed)
qed

theorem C7_scale_speed_witness:
  "scale (generateParticles 2 cube (\<lambda>n. 1/2) ! 1) = 0.9 \<and>
   speed (generateParticles 2 cube (\<lambda>n. 1/2) ! 1) = 0.75 \<and>
   0.5 \<le> scale (generateParticles 2 cube (\<lambda>n. 1/2) ! 1) \<and>
   scale (generateParticles 2 cube (\<lambda>n. 1/2) ! 1) \<le> 1.3 \<and>
   0.5 \<le> speed (generateParticles 2 cube (\<lambda>n. 1/2) ! 1) \<and>
   speed (generateParticles 2 cube (\<lambda>n. 1/2) ! 1) \<le> 1.0"
  using C7_scale_speed_range [of "\<lambda>n. 1/2" 1 2 cube]
  by (simp add: length_generateParticles nth_generateParticles generateParticle_scale
      generateParticle_speed)

lemma generateParticle_treePosition:
  "treePosition (generateParticle type random k) =
     Vector3
       ((1 - random (k + 3) powr 1.2) * 5.5 * (0.2 + 0.8 * sqrt (random (k + 4))) *
          cos (random (k + 5) * pi * 2))
       (- 13 / 2 + random (k + 3) powr 1.2 * 13 + 1)
       ((1 - random (k + 3) powr 1.2) * 5.5 * (0.2 + 0.8 * sqrt (random (k + 4))) *
          sin (random (k + 5) * pi * 2))"
  by (simp add: generateParticle_def Let_def treeHeight_def maxBaseRadius_def)

lemma hNormal_range:
  assumes "0 \<le> u" "u < 1"
  shows "0 \<le> u powr 1.2" "u powr 1.2 \<le> (1::real)"
  using assms by (simp_all add: powr_le1)

lemma pile_factor_range:
  assumes "0 \<le> u" "u < 1"
  shows "0 \<le> 0.2 + 0.8 * sqrt u" "0.2 + 0.8 * sqrt u \<le> (1::real)"
proof -
  have "0 \<le> sqrt u" using assms by simp
  then show "0 \<le> 0.2 + 0.8 * sqrt u" by simp
  have "sqrt u \<le> 1" using assms by simp
  then show "0.2 + 0.8 * sqrt u \<le> 1" by linarith
qed

lemma polar_distance:
  fixes R a :: real
  assumes "0 \<le> R"
  shows "sqrt ((R * cos a)\<^sup>2 + (R * sin a)\<^sup>2) = R"
proof -
  have "(R * cos a)\<^sup>2 + (R * sin a)\<^sup>2 = R\<^sup>2 * ((cos a)\<^sup>2 + (sin a)\<^sup>2)"
    by (simp only: power_mult_distrib distrib_left)
  also have "\<dots> = R\<^sup>2" by simp
  finally show ?thesis using assms by simp
qed

text \<open>
  Claim C6. For every generated particle, with \<open>u\<close>, \<open>u'\<close> and \<open>u''\<close> its fourth, fifth
  and sixth draw: the height fraction is \<open>h = u powr 1.2\<close>, the vertical coordinate
  \<open>- 13 / 2 + h * 13 + 1\<close>, the radius bound at that height \<open>(1 - h) * 5.5\<close>, the pile
  radius that bound times \<open>0.2 + 0.8 * sqrt u'\<close> and the pile angle \<open>u'' * pi * 2\<close>, which
  lies in \<open>[0, 2 pi)\<close>. Hence the vertical coordinate lies in \<open>[- 5.5, 7.5]\<close> and the
  horizontal distance from the axis is at most \<open>(1 - h) * 5.5\<close>.
\<close>

theorem C6_tree_position:
  assumes "\<forall>n. 0 \<le> random n \<and> random n < 1"
    and "i < length (generateParticles count type random)"
  shows
    "(let p = generateParticles count type random ! i;
          h = random (13 * i + 3) powr 1.2;
          y = - 13 / 2 + h * 13 + 1;
          bound = (1 - h) * 5.5;
          pileRadius = bound * (0.2 + 0.8 * sqrt (random (13 * i + 4)));
          pileAngle = random (13 * i + 5) * pi * 2
      in treePosition p = Vector3 (pileRadius * cos pileAngle) y (pileRadius * sin pileAngle) \<and>
         0 \<le> pileAngle \<and> pileAngle < 2 * pi \<and>
         - 5.5 \<le> vec_y (treePosition p) \<and> vec_y (treePosition p) \<le> 7.5 \<and>
         sqrt ((vec_x (treePosition p))\<^sup>2 + (vec_z (treePosition p))\<^sup>2) \<le> bound)"
proof -
  from assms(2) have i: "i < nat count" by (simp add: length_generateParticles)
  define h where "h = random (13 * i + 3) powr 1.2"
  define f where "f = 0.2 + 0.8 * sqrt (random (13 * i + 4))"
  define a where "a = random (13 * i + 5) * pi * 2"
  have h: "0 \<le> h" "h \<le> 1"
    unfolding h_def using assms(1) hNormal_range by simp_all
  have f: "0 \<le> f" "f \<le> 1"
    unfolding f_def using assms(1) pile_factor_range by simp_all
  have a: "0 \<le> a" "a < 2 * pi"
    unfolding a_def using assms(1) by simp_all
  have tp: "treePosition (generateParticles count type random ! i) =
      Vector3 ((1 - h) * 5.5 * f * cos a) (- 13 / 2 + h * 13 + 1) ((1 - h) * 5.5 * f * sin a)"
    unfolding h_def f_def a_def
    by (simp add: nth_generateParticles [OF i] generateParticle_treePosition)
  have R0: "0 \<le> (1 - h) * 5.5 * f" using h f by simp
  have "(1 - h) * 5.5 * f \<le> (1 - h) * 5.5 * 1"
    using h f by (intro mult_left_mono) simp_all
  then have R1: "(1 - h) * 5.5 * f \<le> (1 - h) * 5.5" by simp
  have y: "- 5.5 \<le> - 13 / 2 + h * 13 + 1" "- 13 / 2 + h * 13 + 1 \<le> 7.5"
    using h by simp_all
  have d: "sqrt (((1 - h) * 5.5 * f * cos a)\<^sup>2 + ((1 - h) * 5.5 * f * sin a)\<^sup>2) \<le>
      (1 - h) * 5.5"
    using R1 by (simp only: polar_distance [OF R0])
  show ?thesis
    unfolding Let_def tp h_def [symmetric] f_def [symmetric] a_def [symmetric]
    using a y d by simp
qed

theorem C6_tree_position_witness:
  "treePosition (generateParticles 1 sphere (\<lambda>n. 0) ! 0) = Vector3 1.1 (- 5.5) 0 \<and>
   - 5.5 \<le> vec_y (treePosition (generateParticles 1 sphere (\<lambda>n. 0) ! 0)) \<and>
   vec_y (treePosition (generateParticles 1 sphere (\<lambda>n. 0) ! 0)) \<le> 7.5 \<and>
   sqrt ((vec_x (treePosition (generateParticles 1 sphere (\<lambda>n. 0) ! 0)))\<^sup>2 +
         (vec_z (treePosition (generateParticles 1 sphere (\<lambda>n. 0) ! 0)))\<^sup>2) \<le> 5.5"
  using C6_tree_position [of "\<lambda>n. 0" 0 1 sphere]
  by (simp add: length_generateParticles Let_def)

lemma generateParticle_rotations:
  "scatterRotation (generateParticle type random k) =
     Euler (random (k + 7) * pi) (random (k + 8) * pi) 0"
  "treeRotation (generateParticle type random k) =
     Euler (random (k + 9) * pi) (random (k + 10) * pi) 0"
  by (simp_all add: generateParticle_def Let_def)

lemma angle_range:
  assumes "0 \<le> u" "u < 1"
  shows "0 \<le> u * pi" "u * pi < pi"
  using assms by simp_all

text \<open>
  Claim C10. For every generated particle the scatter rotation and the tree rotation
  have their x and y angles in \<open>[0, pi)\<close> and their z angle equal to 0.
\<close>

theorem C10_rotation_ranges:
  assumes "\<forall>n. 0 \<le> random n \<and> random n < 1"
    and "i < length (generateParticles count type random)"
  shows
    "(let p = generateParticles count type random ! i in
        0 \<le> euler_x (scatterRotation p) \<and> euler_x (scatterRotation p) < pi \<and>
        0 \<le> euler_y (scatterRotation p) \<and> euler_y (scatterRotation p) < pi \<and>
        euler_z (scatterRotation p) = 0 \<and>
        0 \<le> euler_x (treeRotation p) \<and> euler_x (treeRotation p) < pi \<and>
        0 \<le> euler_y (treeRotation p) \<and> euler_y (treeRotation p) < pi \<and>
        euler_z (treeRotation p) = 0)"
proof -
  from assms(2) have i: "i < nat count" by (simp add: length_generateParticles)
  have r: "0 \<le> random n * pi" "random n * pi < pi" for n
    using assms(1) angle_range [of "random n"] by simp_all
  show ?thesis
    using r by (simp add: Let_def nth_generateParticles [OF i] generateParticle_rotations)
qed

theorem C10_rotation_ranges_witness:
  "scatterRotation (generateParticles 3 gem (\<lambda>n. 1/2) ! 2) = Euler (pi / 2) (pi / 2) 0 \<and>
   treeRotation (generateParticles 3 gem (\<lambda>n. 1/2) ! 2) = Euler (pi / 2) (pi / 2) 0 \<and>
   euler_x (scatterRotation (generateParticles 3 gem (\<lambda>n. 1/2) ! 2)) < pi \<and>
   euler_z (treeRotation (generateParticles 3 gem (\<lambda>n. 1/2) ! 2)) = 0"
  using C10_rotation_ranges [of "\<lambda>n. 1/2" 2 3 gem]
  by (simp add: length_generateParticles nth_generateParticles generateParticle_rotations Let_def)

lemma breathe_range:
  fixes s b :: real
  assumes "0.5 \<le> s" "s \<le> 1.3" "- 1 \<le> b" "b \<le> 1"
  shows "0.45 \<le> s * (1 + 0.1 * b)" "s * (1 + 0.1 * b) \<le> 1.43"
proof -
  have "0.5 * 0.9 \<le> s * (1 + 0.1 * b)"
    using assms by (intro mult_mono) simp_all
  then show "0.45 \<le> s * (1 + 0.1 * b)" by simp
  have "s * (1 + 0.1 * b) \<le> 1.3 * 1.1"
    using assms by (intro mult_mono) simp_all
  then show "s * (1 + 0.1 * b) \<le> 1.43" by simp
qed

lemma particleInstance_scale:
  "instanceScale (particleInstance elapsedTime t i p) =
     scale p * (1 + 0.1 * sin (elapsedTime * 2 + real i))"
  by (simp add: particleInstance_def Let_def)

text \<open>
  Claim C9. For every generated particle \<open>i\<close>, every elapsed time and every blend value,
  the scale written for the instance is the base scale times the breathing factor
  \<open>1 + 0.1 * sin (elapsedTime * 2 + i)\<close>; it lies in \<open>[0.45, 1.43]\<close> and is positive.
\<close>

theorem C9_rendered_scale_range:
  assumes "\<forall>n. 0 \<le> random n \<and> random n < 1"
    and "i < length (generateParticles count type random)"
  shows
    "(let s = instanceScale
                (particleInstance elapsedTime t i (generateParticles count type random ! i))
      in s = scale (generateParticles count type random ! i) *
               (1 + 0.1 * sin (elapsedTime * 2 + real i)) \<and>
         0.45 \<le> s \<and> s \<le> 1.43 \<and> 0 < s)"
proof -
  from assms(2) have i: "i < nat count" by (simp add: length_generateParticles)
  have u: "0 \<le> random (13 * i + 11)" "random (13 * i + 11) < 1"
    using assms(1) by simp_all
  have s: "0.5 \<le> scale (generateParticles count type random ! i)"
      "scale (generateParticles count type random ! i) \<le> 1.3"
    using u by (simp_all add: nth_generateParticles [OF i] generateParticle_scale)
  have b: "- 1 \<le> sin (elapsedTime * 2 + real i)" "sin (elapsedTime * 2 + real i) \<le> 1"
    by simp_all
  from breathe_range [OF s b] show ?thesis
    by (simp add: Let_def particleInstance_scale)
qed

theorem C9_rendered_scale_witness:
  "instanceScale (particleInstance 0 0 0 (generateParticles 1 sphere (\<lambda>n. 1/2) ! 0)) = 0.9 \<and>
   0.45 \<le> instanceScale (particleInstance 0 0 0 (generateParticles 1 sphere (\<lambda>n. 1/2) ! 0)) \<and>
   instanceScale (particleInstance 0 0 0 (generateParticles 1 sphere (\<lambda>n. 1/2) ! 0)) \<le> 1.43 \<and>
   0 < instanceScale (particleInstance 0 0 0 (generateParticles 1 sphere (\<lambda>n. 1/2) ! 0))"
  using C9_rendered_scale_range [of "\<lambda>n. 1/2" 0 1 sphere 0 0]
  by (simp add: length_generateParticles nth_generateParticles generateParticle_scale Let_def)

section \<open>Properties of the per-frame transform\<close>

text \<open>
  The loop over the particles writes slot \<open>i\<close> of the buffer with the instance of
  particle \<open>i\<close>, for every particle the buffer has a slot for.
\<close>

lemma length_forEach: "length (forEach elapsedTime t i data buf) = length buf"
  by (induction data arbitrary: i buf) simp_all

lemma forEach_below: "k < i \<Longrightarrow> forEach elapsedTime t i data buf ! k = buf ! k"
  by (induction data arbitrary: i buf) simp_all

lemma forEach_nth:
  "j < length data \<Longrightarrow> i + j < length buf \<Longrightarrow>
     forEach elapsedTime t i data buf ! (i + j) = particleInstance elapsedTime t (i + j) (data ! j)"
proof (induction data arbitrary: i j buf)
  case Nil
  then show ?case by simp
next
  case (Cons particle rest)
  show ?case
  proof (cases j)
    case 0
    then show ?thesis using Cons.prems by (simp add: forEach_below)
  next
    case (Suc j')
    then have "forEach elapsedTime t (Suc i) rest
        (buf[i := particleInstance elapsedTime t i particle]) ! (Suc i + j') =
        particleInstance elapsedTime t (Suc i + j') (rest ! j')"
      using Cons.prems by (intro Cons.IH) simp_all
    then show ?thesis using Suc by simp
  qed
qed

section \<open>Properties of the position in double precision\<close>















text \<open>
  With the identity as rounding function the rounded computation is the exact one.
\<close>

lemma particlePosition_exact:
  "particlePosition_rounded (\<lambda>x. x) sin cos elapsedTime t i p =
     position (particleInstance elapsedTime t i p)"
  by (simp add: particlePosition_rounded_def lerpVectors_rounded_def particleInstance_def
      lerpVectors_def Let_def)








text \<open>
  Claim C8. In every frame with the star mounted, whatever the damping function, the
  star's scale is \<open>lerp 0 1.2 t\<close> of the frame's blend value \<open>t\<close>, so it is 0 at
  \<open>t = 0\<close> and 1.2 at \<open>t = 1\<close>, and its height is \<open>lerp 15 8.2 t\<close> plus the bob
  \<open>0.05 * sin (elapsedTime * 2)\<close>.
\<close>

theorem C8_accent_scale_and_height:
  assumes "starRef c = Some star"
  shows
    "(let c' = useFrame_FloatingOrnaments easing_damp state elapsedTime delta c;
          t = star_blendRef c'
      in map_option group_scale (starRef c') = Some (lerp 0 1.2 t) \<and>
         map_option position_y (starRef c') =
           Some (lerp 15 8.2 t + 0.05 * sin (elapsedTime * 2)) \<and>
         (t = 0 \<longrightarrow> map_option group_scale (starRef c') = Some 0) \<and>
         (t = 1 \<longrightarrow> map_option group_scale (starRef c') = Some 1.2))"
  using assms by (simp add: useFrame_FloatingOrnaments_def Let_def lerp_def)

theorem C8_accent_witness:
  "map_option group_scale
     (starRef (useFrame_FloatingOrnaments damp TREE_SHAPE 0 1
        \<lparr> starRef = Some \<lparr> position_y = 0, group_scale = 0, group_rotation_y = 0 \<rparr>,
          materialRef = None, star_blendRef = 1 \<rparr>)) = Some 1.2 \<and>
   map_option position_y
     (starRef (useFrame_FloatingOrnaments damp TREE_SHAPE 0 1
        \<lparr> starRef = Some \<lparr> position_y = 0, group_scale = 0, group_rotation_y = 0 \<rparr>,
          materialRef = None, star_blendRef = 1 \<rparr>)) = Some 8.2 \<and>
   map_option group_scale
     (starRef (useFrame_FloatingOrnaments damp SCATTERED 0 1
        \<lparr> starRef = Some \<lparr> position_y = 0, group_scale = 0, group_rotation_y = 0 \<rparr>,
          materialRef = None, star_blendRef = 0 \<rparr>)) = Some 0"
  using C8_accent_scale_and_height [of
      "\<lparr> starRef = Some \<lparr> position_y = 0, group_scale = 0, group_rotation_y = 0 \<rparr>,
         materialRef = None, star_blendRef = 1 \<rparr>"
      "\<lparr> position_y = 0, group_scale = 0, group_rotation_y = 0 \<rparr>" damp TREE_SHAPE 0 1]
    C8_accent_scale_and_height [of
      "\<lparr> starRef = Some \<lparr> position_y = 0, group_scale = 0, group_rotation_y = 0 \<rparr>,
         materialRef = None, star_blendRef = 0 \<rparr>"
      "\<lparr> position_y = 0, group_scale = 0, group_rotation_y = 0 \<rparr>" damp SCATTERED 0 1]
  by (simp add: useFrame_FloatingOrnaments_def damp_def lerp_def Let_def)

section \<open>Properties of the blend value\<close>

lemma damp_closer:
  assumes "0 < delta" "0 < smoothTime" "current \<noteq> target"
  shows "\<bar>damp current target smoothTime delta - target\<bar> < \<bar>current - target\<bar>"
proof -
  have e: "exp (- delta / smoothTime) < 1" using assms by simp
  have "\<bar>damp current target smoothTime delta - target\<bar> =
      \<bar>current - target\<bar> * exp (- delta / smoothTime)"
    by (simp add: damp_def abs_mult)
  also have "\<dots> < \<bar>current - target\<bar> * 1"
    using assms(3) e by (intro mult_strict_left_mono) simp_all
  finally show ?thesis by simp
qed

lemma damp_range:
  assumes "0 \<le> current" "current \<le> 1" "0 \<le> target" "target \<le> 1"
    and "0 \<le> delta" "0 < smoothTime"
  shows "0 \<le> damp current target smoothTime delta" "damp current target smoothTime delta \<le> 1"
proof -
  define e where "e = exp (- delta / smoothTime)"
  have e: "0 \<le> e" "e \<le> 1" unfolding e_def using assms by simp_all
  have d: "damp current target smoothTime delta = target * (1 - e) + current * e"
    by (simp add: damp_def e_def algebra_simps)
  show "0 \<le> damp current target smoothTime delta"
    unfolding d using assms e by simp
  have "target * (1 - e) + current * e \<le> 1 * (1 - e) + 1 * e"
    using assms e by (intro add_mono mult_right_mono) simp_all
  then show "damp current target smoothTime delta \<le> 1"
    unfolding d by simp
qed

lemma blendRef_useFrame:
  "blendRef (useFrame_InteractiveTree easing_damp state elapsedTime delta c) =
     easing_damp (blendRef c) (if state = TREE_SHAPE then 1 else 0) 1.2 delta"
  by (simp add: useFrame_InteractiveTree_def Let_def)

lemma star_blendRef_useFrame:
  "star_blendRef (useFrame_FloatingOrnaments easing_damp state elapsedTime delta c) =
     (case starRef c of
        None \<Rightarrow> star_blendRef c
      | Some star \<Rightarrow> easing_damp (star_blendRef c) (if state = TREE_SHAPE then 1 else 0) 1.0 delta)"
  by (simp add: useFrame_FloatingOrnaments_def Let_def split: option.splits)

text \<open>
  Claim C1. With the specification's exponential smoothing as the damping function, one
  frame with \<open>dt > 0\<close> takes a blend value \<open>v\<close> in \<open>[0, 1]\<close> to
  \<open>target + (v - target) * exp (- dt / timeConstant)\<close>, with time constant 1.2 for the
  particle groups and 1.0 for the accent object (which advances when the star is
  mounted). The new value is strictly closer to the target whenever \<open>v\<close> differs from
  it, and lies in \<open>[0, 1]\<close>.
\<close>

theorem C1_blend_advance:
  assumes "0 \<le> v" "v \<le> 1" "0 < dt"
    and "blendRef c = v" "star_blendRef s = v" "starRef s = Some star"
  shows
    "(let target = (if state = TREE_SHAPE then 1 else 0);
          v1 = blendRef (useFrame_InteractiveTree damp state elapsedTime dt c);
          v2 = star_blendRef (useFrame_FloatingOrnaments damp state elapsedTime dt s)
      in v1 = target + (v - target) * exp (- dt / 1.2) \<and>
         v2 = target + (v - target) * exp (- dt / 1.0) \<and>
         (v \<noteq> target \<longrightarrow>
            \<bar>v1 - target\<bar> < \<bar>v - target\<bar> \<and> \<bar>v2 - target\<bar> < \<bar>v - target\<bar>) \<and>
         0 \<le> v1 \<and> v1 \<le> 1 \<and> 0 \<le> v2 \<and> v2 \<le> 1)"
proof -
  define target :: real where "target = (if state = TREE_SHAPE then 1 else 0)"
  have t: "0 \<le> target" "target \<le> 1" by (simp_all add: target_def)
  have v1: "blendRef (useFrame_InteractiveTree damp state elapsedTime dt c) = damp v target 1.2 dt"
    by (simp add: blendRef_useFrame assms(4) target_def)
  have v2: "star_blendRef (useFrame_FloatingOrnaments damp state elapsedTime dt s) =
      damp v target 1.0 dt"
    by (simp add: star_blendRef_useFrame assms(5,6) target_def)
  have c1: "v \<noteq> target \<Longrightarrow> \<bar>damp v target 1.2 dt - target\<bar> < \<bar>v - target\<bar>"
    using damp_closer [of dt "1.2" v target] assms(3) by simp
  have c2: "v \<noteq> target \<Longrightarrow> \<bar>damp v target 1.0 dt - target\<bar> < \<bar>v - target\<bar>"
    using damp_closer [of dt "1.0" v target] assms(3) by simp
  have r1: "0 \<le> damp v target 1.2 dt" "damp v target 1.2 dt \<le> 1"
    using damp_range [of v target dt "1.2"] assms(1-3) t by simp_all
  have r2: "0 \<le> damp v target 1.0 dt" "damp v target 1.0 dt \<le> 1"
    using damp_range [of v target dt "1.0"] assms(1-3) t by simp_all
  have f1: "damp v target 1.2 dt = target + (v - target) * exp (- dt / 1.2)"
    and f2: "damp v target 1.0 dt = target + (v - target) * exp (- dt / 1.0)"
    by (simp_all add: damp_def)
  show ?thesis
    unfolding Let_def target_def [symmetric] v1 v2
    using c1 c2 r1 r2 f1 f2 by blast
qed


theorem C1_blend_advance_witness:
  "\<bar>blendRef (useFrame_InteractiveTree damp TREE_SHAPE 0 1
       \<lparr> sphereRef = None, cubeRef = None, gemRef = None, spheres = [], cubes = [], gems = [],
         blendRef = 0 \<rparr>) - 1\<bar> < 1 \<and>
   \<bar>star_blendRef (useFrame_FloatingOrnaments damp TREE_SHAPE 0 1
       \<lparr> starRef = Some \<lparr> position_y = 0, group_scale = 0, group_rotation_y = 0 \<rparr>,
         materialRef = None, star_blendRef = 0 \<rparr>) - 1\<bar> < 1 \<and>
   blendRef (useFrame_InteractiveTree damp TREE_SHAPE 0 1
       \<lparr> sphereRef = None, cubeRef = None, gemRef = None, spheres = [], cubes = [], gems = [],
         blendRef = 0 \<rparr>) = 1 - exp (- 1 / 1.2) \<and>
   0 \<le> blendRef (useFrame_InteractiveTree damp TREE_SHAPE 0 1
       \<lparr> sphereRef = None, cubeRef = None, gemRef = None, spheres = [], cubes = [], gems = [],
         blendRef = 0 \<rparr>) \<and>
   star_blendRef (useFrame_FloatingOrnaments damp TREE_SHAPE 0 1
       \<lparr> starRef = Some \<lparr> position_y = 0, group_scale = 0, group_rotation_y = 0 \<rparr>,
         materialRef = None, star_blendRef = 0 \<rparr>) \<le> 1"
  using C1_blend_advance [of 0 1
      "\<lparr> sphereRef = None, cubeRef = None, gemRef = None, spheres = [], cubes = [], gems = [],
         blendRef = 0 \<rparr>"
      "\<lparr> starRef = Some \<lparr> position_y = 0, group_scale = 0, group_rotation_y = 0 \<rparr>,
         materialRef = None, star_blendRef = 0 \<rparr>"
      "\<lparr> position_y = 0, group_scale = 0, group_rotation_y = 0 \<rparr>" TREE_SHAPE 0]
  by (simp add: Let_def)

lemma rotation_animateMesh:
  "map_option rotation_y (animateMesh elapsedTime delta t mesh data) =
     map_option (\<lambda>m. rotation_y m + delta * 0.05) mesh"
  by (simp add: animateMesh_def split: option.splits)

text \<open>
  Claim C5, as the code has it. A frame applies no clamp to the delta time: for every
  \<open>delta\<close>, negative ones included, the damping function receives \<open>delta\<close> itself, each
  mounted particle mesh turns by \<open>delta * 0.05\<close> and the mounted star by \<open>delta * 0.8\<close>.
\<close>

theorem C5_delta_used_unclamped:
  "blendRef (useFrame_InteractiveTree easing_damp state elapsedTime delta c) =
     easing_damp (blendRef c) (if state = TREE_SHAPE then 1 else 0) 1.2 delta \<and>
   map_option rotation_y
       (sphereRef (useFrame_InteractiveTree easing_damp state elapsedTime delta c)) =
     map_option (\<lambda>m. rotation_y m + delta * 0.05) (sphereRef c) \<and>
   map_option rotation_y
       (cubeRef (useFrame_InteractiveTree easing_damp state elapsedTime delta c)) =
     map_option (\<lambda>m. rotation_y m + delta * 0.05) (cubeRef c) \<and>
   map_option rotation_y
       (gemRef (useFrame_InteractiveTree easing_damp state elapsedTime delta c)) =
     map_option (\<lambda>m. rotation_y m + delta * 0.05) (gemRef c) \<and>
   star_blendRef (useFrame_FloatingOrnaments easing_damp state elapsedTime delta s) =
     (case starRef s of
        None \<Rightarrow> star_blendRef s
      | Some star \<Rightarrow>
          easing_damp (star_blendRef s) (if state = TREE_SHAPE then 1 else 0) 1.0 delta) \<and>
   map_option group_rotation_y
       (starRef (useFrame_FloatingOrnaments easing_damp state elapsedTime delta s)) =
     map_option (\<lambda>g. group_rotation_y g + delta * 0.8) (starRef s)"
proof -
  have tree: "sphereRef (useFrame_InteractiveTree easing_damp state elapsedTime delta c) =
      animateMesh elapsedTime delta
        (easing_damp (blendRef c) (if state = TREE_SHAPE then 1 else 0) 1.2 delta)
        (sphereRef c) (spheres c)"
    "cubeRef (useFrame_InteractiveTree easing_damp state elapsedTime delta c) =
      animateMesh elapsedTime delta
        (easing_damp (blendRef c) (if state = TREE_SHAPE then 1 else 0) 1.2 delta)
        (cubeRef c) (cubes c)"
    "gemRef (useFrame_InteractiveTree easing_damp state elapsedTime delta c) =
      animateMesh elapsedTime delta
        (easing_damp (blendRef c) (if state = TREE_SHAPE then 1 else 0) 1.2 delta)
        (gemRef c) (gems c)"
    by (simp_all add: useFrame_InteractiveTree_def Let_def)
  have star: "map_option group_rotation_y
       (starRef (useFrame_FloatingOrnaments easing_damp state elapsedTime delta s)) =
     map_option (\<lambda>g. group_rotation_y g + delta * 0.8) (starRef s)"
    by (simp add: useFrame_FloatingOrnaments_def Let_def split: option.splits)
  show ?thesis
    by (simp only: tree rotation_animateMesh blendRef_useFrame star_blendRef_useFrame star)
qed

text \<open>
  Claim C5 as stated asks that a negative delta time be clamped to zero before use. The
  frame at \<open>delta = - 1\<close> differs from the frame at \<open>delta = 0\<close>: the sphere mesh is
  turned back by 0.05 and the star by 0.8.
\<close>

theorem C5_negative_delta_counterexample:
  "useFrame_InteractiveTree damp SCATTERED 0 (- 1)
     \<lparr> sphereRef = Some \<lparr> rotation_y = 0, instances = [] \<rparr>, cubeRef = None, gemRef = None,
       spheres = [], cubes = [], gems = [], blendRef = 0 \<rparr> \<noteq>
   useFrame_InteractiveTree damp SCATTERED 0 0
     \<lparr> sphereRef = Some \<lparr> rotation_y = 0, instances = [] \<rparr>, cubeRef = None, gemRef = None,
       spheres = [], cubes = [], gems = [], blendRef = 0 \<rparr> \<and>
   sphereRef (useFrame_InteractiveTree damp SCATTERED 0 (- 1)
     \<lparr> sphereRef = Some \<lparr> rotation_y = 0, instances = [] \<rparr>, cubeRef = None, gemRef = None,
       spheres = [], cubes = [], gems = [], blendRef = 0 \<rparr>) =
     Some \<lparr> rotation_y = - 0.05, instances = [] \<rparr> \<and>
   starRef (useFrame_FloatingOrnaments damp SCATTERED 0 (- 1)
     \<lparr> starRef = Some \<lparr> position_y = 0, group_scale = 0, group_rotation_y = 0 \<rparr>,
       materialRef = None, star_blendRef = 0 \<rparr>) =
     Some \<lparr> position_y = 15, group_scale = 0, group_rotation_y = - 0.8 \<rparr>"
  by (simp add: useFrame_InteractiveTree_def useFrame_FloatingOrnaments_def animateMesh_def
      damp_def lerp_def Let_def)

end
